theory Spec2Isabelle
  imports Main
begin

section \<open>Python values seen by \<^verbatim>\<open>proompt.base.prompt\<close>\<close>

text \<open>
  The module \<^verbatim>\<open>src/proompt/base/prompt.py\<close> inspects its arguments only through
  \<^verbatim>\<open>is None\<close>, \<^verbatim>\<open>isinstance\<close>, \<^verbatim>\<open>hasattr\<close>/\<^verbatim>\<open>getattr\<close>, truth testing and
  \<^verbatim>\<open>dict.values()\<close>. A Python value is therefore modelled by what these operations
  observe: an instance of a user class carries its method resolution order (the classes
  it is an instance of), its truth value (what \<^verbatim>\<open>__bool__\<close>/\<^verbatim>\<open>__len__\<close> give; True
  unless a class overrides them) and, for each attribute name, what reading it does: it
  returns a value or, for a property, raises. Values are finite trees: an object that
  contains itself, or nesting deeper than the interpreter's recursion limit, is outside
  the model. So are an object on which \<^verbatim>\<open>isinstance\<close> itself raises (reading its
  \<^verbatim>\<open>__class__\<close> fails) and a \<^verbatim>\<open>dict\<close> subclass that overrides \<^verbatim>\<open>values()\<close>: the
  statements below are about values on which these tests answer. An exception is
  identified by its class; \<open>OtherException\<close> names a class that derives from none of
  the classes listed before it.
\<close>

datatype exn =
    AttributeError
  | TypeError
  | ValueError
  | RuntimeError
  | NotImplementedError
  | OtherException string

datatype pyclass = ToolContext | Context | BaseProvider | UserClass string

datatype pyval =
    PyNone
  | PyInt int
  | PyStr string
  | PyList "pyval list"
  | PyDict "(string \<times> pyval) list"
  | PyObj "pyclass list" bool "(string \<times> (exn + pyval)) list"

text \<open>
  \<^verbatim>\<open>ToolContext.from_pydantic_tool\<close> is a parameter of the model wherever the code
  calls it: a function from the value to the exception raised or the value returned.
\<close>

type_synonym converter = "pyval \<Rightarrow> exn + pyval"

text \<open>Builtin values are instances of none of the classes this module tests for.\<close>

fun class_mro :: "pyval \<Rightarrow> pyclass list" where
  "class_mro (PyObj mro t attrs) = mro"
| "class_mro v = []"

definition issubclass :: "pyclass list \<Rightarrow> pyclass \<Rightarrow> bool" where
  "issubclass mro c = (c \<in> set mro)"

definition isinstance :: "pyval \<Rightarrow> pyclass \<Rightarrow> bool" where
  "isinstance v c = issubclass (class_mro v) c"

text \<open>Truth testing, as \<^verbatim>\<open>not x\<close> and \<^verbatim>\<open>x or y\<close> apply it.\<close>

fun truth :: "pyval \<Rightarrow> bool" where
  "truth PyNone = False"
| "truth (PyInt n) = (n \<noteq> 0)"
| "truth (PyStr s) = (s \<noteq> [])"
| "truth (PyList xs) = (xs \<noteq> [])"
| "truth (PyDict kvs) = (kvs \<noteq> [])"
| "truth (PyObj mro t attrs) = t"

text \<open>
  Reading an attribute. None of the builtin values has an attribute that this module
  reads, so the read raises \<^verbatim>\<open>AttributeError\<close> there.
\<close>

fun getattr :: "pyval \<Rightarrow> string \<Rightarrow> exn + pyval" where
  "getattr (PyObj mro t attrs) name =
     (case map_of attrs name of None \<Rightarrow> Inl AttributeError | Some r \<Rightarrow> r)"
| "getattr v name = Inl AttributeError"

text \<open>\<^verbatim>\<open>hasattr\<close> catches \<^verbatim>\<open>AttributeError\<close> and nothing else.\<close>

definition hasattr :: "pyval \<Rightarrow> string \<Rightarrow> exn + bool" where
  "hasattr obj name =
     (case getattr obj name of
        Inr v \<Rightarrow> Inr True
      | Inl e \<Rightarrow> if e = AttributeError then Inr False else Inl e)"

text \<open>\<^verbatim>\<open>getattr(obj, name, default)\<close>.\<close>

definition getattr_default :: "pyval \<Rightarrow> string \<Rightarrow> pyval \<Rightarrow> exn + pyval" where
  "getattr_default obj name d =
     (case getattr obj name of
        Inr v \<Rightarrow> Inr v
      | Inl e \<Rightarrow> if e = AttributeError then Inr d else Inl e)"

fun is_list :: "pyval \<Rightarrow> bool" where
  "is_list (PyList xs) = True"
| "is_list v = False"

fun list_items :: "pyval \<Rightarrow> pyval list" where
  "list_items (PyList xs) = xs"
| "list_items v = []"

text \<open>\<^verbatim>\<open>xs or []\<close> on a list or tuple, and on \<^verbatim>\<open>list | None\<close>.\<close>

definition or_empty :: "'a list \<Rightarrow> 'a list" where
  "or_empty xs = (if xs \<noteq> [] then xs else [])"

definition opt_or_empty :: "'a list option \<Rightarrow> 'a list" where
  "opt_or_empty xs = (case xs of None \<Rightarrow> [] | Some ys \<Rightarrow> or_empty ys)"

section \<open>Tool normalization\<close>

text \<open>
  The loop of lines 113--121: every value of the mapping is normalized in turn, an
  exception ends the loop, \<^verbatim>\<open>None\<close> is skipped, a list extends the result and anything
  else is appended.
\<close>

fun collect_tools :: "converter \<Rightarrow> pyval list \<Rightarrow> pyval list \<Rightarrow> exn + pyval list" where
  "collect_tools norm [] result = Inr result"
| "collect_tools norm (tool_obj # rest) result =
     (case norm tool_obj of
        Inl e \<Rightarrow> Inl e
      | Inr normalized \<Rightarrow>
          if normalized = PyNone then collect_tools norm rest result
          else if is_list normalized then collect_tools norm rest (result @ list_items normalized)
          else collect_tools norm rest (result @ [normalized]))"

lemma collect_tools_cong [fundef_cong]:
  "ts = ts' \<Longrightarrow> (\<And>t. t \<in> set ts' \<Longrightarrow> norm t = norm' t) \<Longrightarrow> r = r' \<Longrightarrow>
     collect_tools norm ts r = collect_tools norm' ts' r'"
  by (induction ts' arbitrary: ts r r') (auto split: sum.splits)

text \<open>
  Lines 124--133: with pydantic-ai available the value is handed to
  \<^verbatim>\<open>ToolContext.from_pydantic_tool\<close>, and \<^verbatim>\<open>AttributeError\<close> and \<^verbatim>\<open>TypeError\<close> (no
  other exception) turn into \<^verbatim>\<open>None\<close>; without it the result is \<^verbatim>\<open>None\<close>.
\<close>

definition convert_tool :: "bool \<Rightarrow> converter \<Rightarrow> pyval \<Rightarrow> exn + pyval" where
  "convert_tool avail fpt tool =
     (if avail then
        (case fpt tool of
           Inr tc \<Rightarrow> Inr tc
         | Inl e \<Rightarrow> if e = AttributeError \<or> e = TypeError then Inr PyNone else Inl e)
      else Inr PyNone)"

lemma size_dict_value: "(k, v) \<in> set kvs \<Longrightarrow> size v < size (PyDict kvs)"
  by (induction kvs) auto

lemma size_attr_value:
  "map_of attrs name = Some (Inr v) \<Longrightarrow> size v < size (PyObj mro t attrs)"
  by (induction attrs) (auto split: if_splits)

lemma size_tools_value:
  assumes "getattr_default tool name PyNone = Inr (PyDict kvs)" and "(k, v) \<in> set kvs"
  shows "size v < size tool"
proof (cases tool)
  case (PyObj mro t attrs)
  with assms(1) have "map_of attrs name = Some (Inr (PyDict kvs))"
    by (auto simp: getattr_default_def split: option.splits sum.splits if_splits)
  then have "size (PyDict kvs) < size tool"
    unfolding PyObj by (rule size_attr_value)
  with size_dict_value [OF assms(2)] show ?thesis by simp
qed (use assms(1) in \<open>auto simp: getattr_default_def split: if_splits\<close>)

text \<open>
  \<^verbatim>\<open>PromptSection._normalize_tool\<close> (lines 83--133). \<open>avail\<close> is the module constant
  \<^verbatim>\<open>PYDANTIC_AI_AVAILABLE\<close> and \<open>fpt\<close> is \<^verbatim>\<open>ToolContext.from_pydantic_tool\<close>, both
  imported from \<^verbatim>\<open>proompt.base.context\<close>. The result is the exception raised or the
  value returned: \<open>PyNone\<close>, a \<open>PyList\<close> of descriptors or a single descriptor.
  \<^verbatim>\<open>and\<close> short-circuits, so \<^verbatim>\<open>hasattr\<close> is evaluated only when \<open>avail\<close> holds.
\<close>

function normalize_tool :: "bool \<Rightarrow> converter \<Rightarrow> pyval \<Rightarrow> exn + pyval" where
  "normalize_tool avail fpt tool =
     (if tool = PyNone then Inr PyNone
      else if isinstance tool ToolContext then Inr tool
      else
        (case (if avail then hasattr tool ''tools'' else Inr False) of
           Inl e \<Rightarrow> Inl e
         | Inr has_tools \<Rightarrow>
             if has_tools then
               (case getattr_default tool ''tools'' PyNone of
                  Inl e \<Rightarrow> Inl e
                | Inr (PyDict kvs) \<Rightarrow>
                    (case collect_tools (normalize_tool avail fpt) (map snd kvs) [] of
                       Inl e \<Rightarrow> Inl e
                     | Inr result \<Rightarrow> Inr (if result \<noteq> [] then PyList result else PyNone))
                | Inr tools_attr \<Rightarrow> convert_tool avail fpt tool)
             else convert_tool avail fpt tool))"
  by pat_completeness auto
termination
proof (relation "measure (\<lambda>(avail, fpt, tool). size tool)")
  show "wf (measure (\<lambda>(avail, fpt, tool). size tool))" by simp
next
  fix avail :: bool and fpt :: converter and tool x2 x5 t
  assume "getattr_default tool ''tools'' PyNone = Inr x2" "x2 = PyDict x5"
    "t \<in> set (map snd x5)"
  then have "size t < size tool" by (auto dest: size_tools_value)
  then show "((avail, fpt, t), (avail, fpt, tool)) \<in> measure (\<lambda>(avail, fpt, tool). size tool)"
    by simp
qed

declare normalize_tool.simps [simp del]

section \<open>PromptSection\<close>

record prompt_section =
  stored_context :: pyval
  providers :: "pyval list"
  tools :: "pyval list"

text \<open>
  The loop shared by \<^verbatim>\<open>__init__\<close> (lines 41--50) and \<^verbatim>\<open>add_tools\<close> (lines 72--81),
  threading \<^verbatim>\<open>self.tools\<close>.
\<close>

fun add_tools_loop :: "bool \<Rightarrow> converter \<Rightarrow> pyval list \<Rightarrow> pyval list \<Rightarrow> exn + pyval list" where
  "add_tools_loop avail fpt [] self_tools = Inr self_tools"
| "add_tools_loop avail fpt (t # rest) self_tools =
     (if t = PyNone then add_tools_loop avail fpt rest self_tools
      else
        (case normalize_tool avail fpt t of
           Inl e \<Rightarrow> Inl e
         | Inr normalized \<Rightarrow>
             if normalized = PyNone then add_tools_loop avail fpt rest self_tools
             else if is_list normalized
               then add_tools_loop avail fpt rest (self_tools @ list_items normalized)
             else add_tools_loop avail fpt rest (self_tools @ [normalized])))"

text \<open>
  \<^verbatim>\<open>PromptSection.__init__(context, tools, *providers)\<close>: the context is stored as
  given, the positional providers are copied into a list, the tools are normalized.
\<close>

definition PromptSection_init ::
  "bool \<Rightarrow> converter \<Rightarrow> pyval \<Rightarrow> pyval list option \<Rightarrow> pyval list \<Rightarrow> exn + prompt_section" where
  "PromptSection_init avail fpt context_arg tool_args provider_args =
     (case add_tools_loop avail fpt (opt_or_empty tool_args) [] of
        Inl e \<Rightarrow> Inl e
      | Inr ts \<Rightarrow>
          Inr \<lparr>stored_context = context_arg, providers = or_empty provider_args, tools = ts\<rparr>)"

text \<open>The \<^verbatim>\<open>context\<close> property (lines 52--57).\<close>

definition context_get :: "prompt_section \<Rightarrow> exn + pyval" where
  "context_get self =
     (if \<not> truth (stored_context self) then Inl ValueError else Inr (stored_context self))"

text \<open>
  The setter of \<^verbatim>\<open>context\<close> (lines 59--64). It returns the section after the call
  together with the exception raised, if any.
\<close>

definition context_set :: "prompt_section \<Rightarrow> pyval \<Rightarrow> prompt_section \<times> exn option" where
  "context_set self v =
     (if \<not> isinstance v Context \<or> issubclass (class_mro v) Context = False
      then (self, Some TypeError)
      else (self\<lparr>stored_context := v\<rparr>, None))"

text \<open>\<^verbatim>\<open>add_providers\<close> (lines 66--68).\<close>

definition add_providers :: "prompt_section \<Rightarrow> pyval list \<Rightarrow> prompt_section" where
  "add_providers self provider_args =
     self\<lparr>providers := providers self @ [p \<leftarrow> provider_args. isinstance p BaseProvider]\<rparr>"

text \<open>
  \<^verbatim>\<open>add_tools\<close> (lines 70--81). When normalizing an argument raises, the call ends
  with that exception; the model does not keep the tools appended before it.
\<close>

definition add_tools :: "bool \<Rightarrow> converter \<Rightarrow> prompt_section \<Rightarrow> pyval list \<Rightarrow> exn + prompt_section" where
  "add_tools avail fpt self tool_args =
     (case add_tools_loop avail fpt tool_args (tools self) of
        Inl e \<Rightarrow> Inl e
      | Inr ts \<Rightarrow> Inr (self\<lparr>tools := ts\<rparr>))"

text \<open>
  \<^verbatim>\<open>__str__\<close> (lines 145--147). \<^verbatim>\<open>render\<close> is abstract: a concrete section class
  supplies it, as a function from the section to the string returned or the exception
  raised.
\<close>

definition PromptSection_str ::
  "(prompt_section \<Rightarrow> exn + string) \<Rightarrow> prompt_section \<Rightarrow> exn + string" where
  "PromptSection_str render self = render self"

section \<open>BasePrompt\<close>

record base_prompt =
  sections :: "prompt_section list"

definition BasePrompt_init :: "prompt_section list \<Rightarrow> base_prompt" where
  "BasePrompt_init section_args = \<lparr>sections = or_empty section_args\<rparr>"

definition BasePrompt_str :: "(base_prompt \<Rightarrow> exn + string) \<Rightarrow> base_prompt \<Rightarrow> exn + string" where
  "BasePrompt_str render self = render self"

section \<open>Inputs and collaborators used in the statements\<close>

text \<open>
  What one normalized value adds to the list being built (lines 116--121 and 76--81):
  nothing for \<^verbatim>\<open>None\<close>, its elements for a list, itself otherwise.
\<close>

fun contribution :: "pyval \<Rightarrow> pyval list" where
  "contribution PyNone = []"
| "contribution (PyList xs) = xs"
| "contribution v = [v]"

text \<open>
  The spec's error kind \<^verbatim>\<open>ConfigurationError\<close>. The module defines no class of that
  name; as an exception class it is distinct from the builtin classes.
\<close>

definition ConfigurationError :: exn where
  "ConfigurationError = OtherException ''ConfigurationError''"

definition field :: "pyval \<Rightarrow> string \<Rightarrow> pyval option" where
  "field obj name = (case getattr obj name of Inr v \<Rightarrow> Some v | Inl e \<Rightarrow> None)"

text \<open>
  Modelled from the spec: \<^verbatim>\<open>ToolContext.from_pydantic_tool\<close> is defined in
  \<^verbatim>\<open>proompt/base/context.py\<close>, which is not among the sources. The spec (4.1) has a
  single foreign tool recognized structurally, by its invocable payload, its name and
  its description, and wrapped into one descriptor that copies the name and the
  description and refers to the payload; anything else does not match. The attribute
  names of the descriptor are the ones \<^verbatim>\<open>examples/04-pydantic_ai_tools_integration.py\<close>
  reads. This converter only supplies concrete inputs: the general theorems below hold
  for every converter.
\<close>

definition from_pydantic_tool :: converter where
  "from_pydantic_tool tool =
     (case (field tool ''function'', field tool ''name'', field tool ''description'') of
        (Some f, Some n, Some d) \<Rightarrow>
          Inr (PyObj [ToolContext] True
                [(''tool_name'', Inr n), (''tool_description'', Inr d), (''callable_ref'', Inr f)])
      | _ \<Rightarrow> Inl AttributeError)"

text \<open>The objects of \<^verbatim>\<open>examples/04-pydantic_ai_tools_integration.py\<close>, as values.\<close>

definition py_function :: "string \<Rightarrow> pyval" where
  "py_function n = PyObj [UserClass ''function''] True [(''__name__'', Inr (PyStr n))]"

definition pydantic_tool :: "string \<Rightarrow> string \<Rightarrow> pyval" where
  "pydantic_tool n d =
     PyObj [UserClass ''Tool''] True
       [(''function'', Inr (py_function n)), (''name'', Inr (PyStr n)),
        (''description'', Inr (PyStr d))]"

definition descriptor :: "string \<Rightarrow> string \<Rightarrow> pyval" where
  "descriptor n d =
     PyObj [ToolContext] True
       [(''tool_name'', Inr (PyStr n)), (''tool_description'', Inr (PyStr d)),
        (''callable_ref'', Inr (py_function n))]"

definition function_toolset :: "(string \<times> pyval) list \<Rightarrow> pyval" where
  "function_toolset kvs =
     PyObj [UserClass ''FunctionToolset''] True [(''tools'', Inr (PyDict kvs))]"

definition search_tool :: pyval where
  "search_tool = pydantic_tool ''search_documents'' ''Search through company documents.''"

definition metrics_tool :: pyval where
  "metrics_tool = pydantic_tool ''get_company_metrics'' ''Retrieve company metrics.''"

definition analysis_toolset :: pyval where
  "analysis_toolset =
     function_toolset [(''search_documents'', search_tool), (''get_company_metrics'', metrics_tool)]"

definition proompt_tool :: pyval where
  "proompt_tool = descriptor ''format_report'' ''Format data into a readable report.''"

text \<open>
  An unrelated object whose \<^verbatim>\<open>tools\<close> property raises \<^verbatim>\<open>RuntimeError\<close>; a
  \<^verbatim>\<open>Context\<close> subclass instance that tests false (its class defines \<^verbatim>\<open>__len__\<close>
  returning 0, or \<^verbatim>\<open>__bool__\<close> returning False); a context and a provider in the
  style of \<^verbatim>\<open>examples/01-simple_quarterly_review.py\<close>; a section constructed with no
  argument.
\<close>

definition broken_object :: pyval where
  "broken_object = PyObj [UserClass ''Broken''] True [(''tools'', Inl RuntimeError)]"

definition empty_context :: pyval where
  "empty_context = PyObj [UserClass ''EmptyContext'', Context] False []"

definition simple_context :: pyval where
  "simple_context =
     PyObj [UserClass ''SimpleContext'', Context] True
       [(''company'', Inr (PyStr ''ACME'')), (''quarter'', Inr (PyStr ''Q1''))]"

definition metrics_provider :: pyval where
  "metrics_provider = PyObj [UserClass ''SimpleMetricsProvider'', BaseProvider] True []"

definition empty_section :: prompt_section where
  "empty_section = \<lparr>stored_context = PyNone, providers = [], tools = []\<rparr>"

lemmas example_defs = from_pydantic_tool_def field_def py_function_def pydantic_tool_def
  descriptor_def function_toolset_def search_tool_def metrics_tool_def analysis_toolset_def
  proompt_tool_def broken_object_def empty_context_def simple_context_def metrics_provider_def
  empty_section_def

lemmas eval_defs = normalize_tool.simps hasattr_def getattr_default_def convert_tool_def
  isinstance_def issubclass_def add_tools_def PromptSection_init_def opt_or_empty_def or_empty_def
  context_get_def context_set_def add_providers_def

section \<open>Lemmas about the loops and the recursion\<close>

lemma collect_tools_flatten:
  "list_all2 (\<lambda>t r. norm t = Inr r) ts rs \<Longrightarrow>
     collect_tools norm ts acc = Inr (acc @ concat (map contribution rs))"
proof (induction ts rs arbitrary: acc rule: list_all2_induct)
  case Nil
  show ?case by simp
next
  case (Cons t ts r rs)
  then show ?case by (cases r) simp_all
qed

lemma normalize_tool_unavailable:
  "normalize_tool False fpt x = Inr (if isinstance x ToolContext then x else PyNone)"
  by (auto simp: normalize_tool.simps [of False fpt x] convert_tool_def isinstance_def
      issubclass_def)

lemma add_tools_loop_unavailable:
  "\<forall>t\<in>set ts. \<not> isinstance t ToolContext \<Longrightarrow> add_tools_loop False fpt ts acc = Inr acc"
  by (induction ts arbitrary: acc) (simp_all add: normalize_tool_unavailable)

text \<open>A context that tests true is returned by the property.\<close>

lemma context_get_truthy:
  "truth c \<Longrightarrow> context_get (s\<lparr>stored_context := c\<rparr>) = Inr c"
  by (simp add: context_get_def)

section \<open>The claims\<close>

subsection \<open>C1: normalization returns without raising\<close>

text \<open>
  C1 fails on the code at an object whose \<^verbatim>\<open>tools\<close> property raises
  \<^verbatim>\<open>RuntimeError\<close>. With \<^verbatim>\<open>PYDANTIC_AI_AVAILABLE\<close> true, \<^verbatim>\<open>hasattr\<close> at line 109
  stands outside any \<^verbatim>\<open>try\<close> and lets the exception through, so
  \<^verbatim>\<open>_normalize_tool\<close> and \<^verbatim>\<open>add_tools\<close> raise it, whatever the converter does. The
  docstring (lines 91 and 97) has invalid objects return \<^verbatim>\<open>None\<close>, which is what the
  same object gets when the flag is false.
\<close>

theorem broken_tools_property_raises:
  "normalize_tool True fpt broken_object = Inl RuntimeError
   \<and> add_tools True fpt s [broken_object] = Inl RuntimeError
   \<and> normalize_tool False fpt broken_object = Inr PyNone"
  by (simp add: eval_defs broken_object_def)

text \<open>
  The failing input of C1 with the converter of the examples and a section constructed
  with no argument.
\<close>

theorem broken_tools_property_raises_witness:
  "normalize_tool True from_pydantic_tool broken_object = Inl RuntimeError
   \<and> add_tools True from_pydantic_tool empty_section [broken_object] = Inl RuntimeError
   \<and> normalize_tool False from_pydantic_tool broken_object = Inr PyNone"
  using broken_tools_property_raises [of from_pydantic_tool empty_section] by simp

subsection \<open>C2: reading a context that was never supplied\<close>

text \<open>
  C2, as amended. For every section constructed without a context (the argument left
  at \<^verbatim>\<open>None\<close>), whatever its tools and providers, reading the \<^verbatim>\<open>context\<close> property
  raises \<^verbatim>\<open>ValueError\<close>; no default is returned.
\<close>

theorem context_unset_raises:
  "PromptSection_init avail fpt PyNone tool_args provider_args = Inr s \<Longrightarrow>
     context_get s = Inl ValueError"
  by (auto simp: PromptSection_init_def context_get_def split: sum.splits)

text \<open>The amended C2 at a section constructed with one tool and one provider.\<close>

theorem context_unset_raises_witness:
  "PromptSection_init True from_pydantic_tool PyNone (Some [search_tool]) [metrics_provider]
     = Inr \<lparr>stored_context = PyNone, providers = [metrics_provider],
            tools = [descriptor ''search_documents'' ''Search through company documents.'']\<rparr>
   \<and> context_get \<lparr>stored_context = PyNone, providers = [metrics_provider],
            tools = [descriptor ''search_documents'' ''Search through company documents.'']\<rparr>
     = Inl ValueError"
proof -
  let ?s = "\<lparr>stored_context = PyNone, providers = [metrics_provider],
            tools = [descriptor ''search_documents'' ''Search through company documents.'']\<rparr>"
  have h: "PromptSection_init True from_pydantic_tool PyNone (Some [search_tool])
      [metrics_provider] = Inr ?s"
    by (simp add: eval_defs example_defs)
  show ?thesis using h context_unset_raises [OF h] by simp
qed

text \<open>
  C2 as stated fails: the exception raised on the section constructed with no argument
  is not a \<^verbatim>\<open>ConfigurationError\<close>.
\<close>

theorem context_unset_counterexample:
  "PromptSection_init True from_pydantic_tool PyNone None [] = Inr empty_section
   \<and> context_get empty_section \<noteq> Inl ConfigurationError"
  by (simp add: eval_defs example_defs ConfigurationError_def)

subsection \<open>C3: assigning a value that is not a Context\<close>

text \<open>
  C3, as amended. Assigning to \<^verbatim>\<open>context\<close> a value that is not an instance of
  \<^verbatim>\<open>Context\<close> raises \<^verbatim>\<open>TypeError\<close> and leaves the section, its stored context
  included, as it was.
\<close>

theorem context_set_rejects:
  "\<not> isinstance v Context \<Longrightarrow> context_set s v = (s, Some TypeError)"
  by (simp add: context_set_def)

text \<open>The amended C3 at a section holding a context, assigned a string.\<close>

theorem context_set_rejects_witness:
  "\<not> isinstance (PyStr ''not a context'') Context
   \<and> context_set (empty_section\<lparr>stored_context := simple_context\<rparr>) (PyStr ''not a context'')
       = (empty_section\<lparr>stored_context := simple_context\<rparr>, Some TypeError)"
proof -
  have h: "\<not> isinstance (PyStr ''not a context'') Context"
    by (simp add: isinstance_def issubclass_def)
  show ?thesis
    using h context_set_rejects [OF h, of "empty_section\<lparr>stored_context := simple_context\<rparr>"]
    by simp
qed

text \<open>
  C3 as stated fails: the failed assignment of a string does not raise a
  \<^verbatim>\<open>ConfigurationError\<close>.
\<close>

theorem context_set_counterexample:
  "context_set empty_section (PyStr ''not a context'')
     \<noteq> (empty_section, Some ConfigurationError)"
  by (simp add: eval_defs example_defs ConfigurationError_def)

subsection \<open>C4: identity short-circuit\<close>

text \<open>
  C4. For every value that is an instance of \<^verbatim>\<open>ToolContext\<close>, \<^verbatim>\<open>_normalize_tool\<close>
  returns that value itself, whatever the availability flag and the converter.
\<close>

theorem identity_short_circuit:
  "isinstance d ToolContext \<Longrightarrow> normalize_tool avail fpt d = Inr d"
  by (auto simp: normalize_tool.simps [of avail fpt d] isinstance_def issubclass_def)

text \<open>C4 at the native descriptor of the example.\<close>

theorem identity_short_circuit_witness:
  "isinstance proompt_tool ToolContext
   \<and> normalize_tool True from_pydantic_tool proompt_tool = Inr proompt_tool"
proof -
  have h: "isinstance proompt_tool ToolContext"
    by (simp add: isinstance_def issubclass_def proompt_tool_def descriptor_def)
  show ?thesis using h identity_short_circuit [OF h, of True from_pydantic_tool] by simp
qed

subsection \<open>C5: flattening a tool collection\<close>

text \<open>
  C5, as amended. When \<^verbatim>\<open>PYDANTIC_AI_AVAILABLE\<close> is true, for every input that is
  neither \<^verbatim>\<open>None\<close> nor a \<^verbatim>\<open>ToolContext\<close> and whose \<^verbatim>\<open>tools\<close> attribute is a dict,
  if normalizing the values of the dict returns \<open>rs\<close>, then \<^verbatim>\<open>_normalize_tool\<close>
  returns the list of what they contribute, in the dict's iteration order (a
  descriptor itself, a list its elements, \<^verbatim>\<open>None\<close> nothing), and \<^verbatim>\<open>None\<close> when that
  list is empty, as it is for the empty dict.
\<close>

theorem toolset_flattening:
  assumes "tool \<noteq> PyNone" and "\<not> isinstance tool ToolContext"
    and "getattr tool ''tools'' = Inr (PyDict kvs)"
    and "list_all2 (\<lambda>v r. normalize_tool True fpt v = Inr r) (map snd kvs) rs"
  shows "normalize_tool True fpt tool =
           Inr (if concat (map contribution rs) = [] then PyNone
                else PyList (concat (map contribution rs)))"
  using assms(1-3) collect_tools_flatten [OF assms(4), of "[]"]
  by (simp add: normalize_tool.simps [of True fpt tool] hasattr_def getattr_default_def)

text \<open>
  The amended C5 at the collection of two tools of the example, which gives the two
  descriptors in order, and at an empty collection, which gives \<^verbatim>\<open>None\<close>.
\<close>

theorem toolset_flattening_witness:
  "normalize_tool True from_pydantic_tool analysis_toolset =
     Inr (PyList [descriptor ''search_documents'' ''Search through company documents.'',
                  descriptor ''get_company_metrics'' ''Retrieve company metrics.''])
   \<and> normalize_tool True from_pydantic_tool (function_toolset []) = Inr PyNone"
proof -
  let ?a = "descriptor ''search_documents'' ''Search through company documents.''"
  let ?b = "descriptor ''get_company_metrics'' ''Retrieve company metrics.''"
  let ?kvs = "[(''search_documents'', search_tool), (''get_company_metrics'', metrics_tool)]"
  have 1: "analysis_toolset \<noteq> PyNone" and 2: "\<not> isinstance analysis_toolset ToolContext"
    and 3: "getattr analysis_toolset ''tools'' = Inr (PyDict ?kvs)"
    by (simp_all add: eval_defs example_defs)
  have 4: "list_all2 (\<lambda>v r. normalize_tool True from_pydantic_tool v = Inr r)
      (map snd ?kvs) [?a, ?b]"
    by (simp add: eval_defs example_defs)
  have 5: "function_toolset [] \<noteq> PyNone"
    and 6: "\<not> isinstance (function_toolset []) ToolContext"
    and 7: "getattr (function_toolset []) ''tools'' = Inr (PyDict [])"
    by (simp_all add: eval_defs example_defs)
  have 8: "list_all2 (\<lambda>v r. normalize_tool True from_pydantic_tool v = Inr r) (map snd []) []"
    by simp
  show ?thesis
    using toolset_flattening [OF 1 2 3 4] toolset_flattening [OF 5 6 7 8]
    by (simp add: descriptor_def)
qed

text \<open>
  C5 as stated fails: with \<^verbatim>\<open>PYDANTIC_AI_AVAILABLE\<close> false the collection of two
  tools normalizes to \<^verbatim>\<open>None\<close>, not to a sequence of two descriptors.
\<close>

theorem toolset_unavailable_counterexample:
  "normalize_tool False from_pydantic_tool analysis_toolset = Inr PyNone"
  by (simp add: eval_defs example_defs)

subsection \<open>C6: add_providers filters\<close>

text \<open>
  C6. \<^verbatim>\<open>add_providers\<close> appends exactly the arguments that are instances of
  \<^verbatim>\<open>BaseProvider\<close>, in argument order, drops the others without raising and touches
  nothing else; called with 42, a string and a provider it adds that one provider.
\<close>

theorem add_providers_filters:
  "providers (add_providers s ps) = providers s @ filter (\<lambda>p. isinstance p BaseProvider) ps
   \<and> tools (add_providers s ps) = tools s
   \<and> stored_context (add_providers s ps) = stored_context s
   \<and> (isinstance p BaseProvider \<longrightarrow>
        providers (add_providers s [PyInt 42, PyStr ''not a provider'', p]) = providers s @ [p])"
  by (simp add: add_providers_def isinstance_def issubclass_def)

text \<open>C6 at a section without providers and the provider of the example.\<close>

theorem add_providers_filters_witness:
  "isinstance metrics_provider BaseProvider
   \<and> providers (add_providers empty_section [PyInt 42, PyStr ''not a provider'', metrics_provider])
       = [metrics_provider]"
proof -
  have h: "isinstance metrics_provider BaseProvider"
    by (simp add: isinstance_def issubclass_def metrics_provider_def)
  show ?thesis
    using h add_providers_filters [of empty_section "[]" metrics_provider]
    by (simp add: empty_section_def)
qed

subsection \<open>C7: reading a context that was supplied\<close>

text \<open>
  C7 fails on the code at a \<^verbatim>\<open>Context\<close> instance that tests false: supplied at
  construction or accepted by the setter, it is stored, and reading the property then
  raises \<^verbatim>\<open>ValueError\<close> (``Context is not set'') instead of returning it, because
  line 55 tests the truth of the stored context, not whether it is \<^verbatim>\<open>None\<close>.
\<close>

theorem falsy_context_reads_as_unset:
  "isinstance empty_context Context
   \<and> PromptSection_init True from_pydantic_tool empty_context None []
       = Inr (empty_section\<lparr>stored_context := empty_context\<rparr>)
   \<and> context_set empty_section empty_context
       = (empty_section\<lparr>stored_context := empty_context\<rparr>, None)
   \<and> context_get (empty_section\<lparr>stored_context := empty_context\<rparr>) = Inl ValueError"
  by (simp add: eval_defs example_defs)

text \<open>
  The failing input of C7 is a \<^verbatim>\<open>Context\<close> instance, it tests false, and the read
  raises.
\<close>

theorem falsy_context_reads_as_unset_witness:
  "isinstance empty_context Context \<and> \<not> truth empty_context
   \<and> context_get (empty_section\<lparr>stored_context := empty_context\<rparr>) = Inl ValueError"
  using falsy_context_reads_as_unset by (simp add: empty_context_def)

subsection \<open>C8: normalization without pydantic-ai\<close>

text \<open>
  C8. When \<^verbatim>\<open>PYDANTIC_AI_AVAILABLE\<close> is false, \<^verbatim>\<open>_normalize_tool\<close> returns
  \<^verbatim>\<open>None\<close> for every input that is not a \<^verbatim>\<open>ToolContext\<close>, and \<^verbatim>\<open>add_tools\<close> called
  with such inputs returns normally and leaves the section unchanged.
\<close>

theorem unavailable_skips_foreign_tools:
  assumes "\<forall>x\<in>set xs. \<not> isinstance x ToolContext"
  shows "(\<forall>x\<in>set xs. normalize_tool False fpt x = Inr PyNone)
         \<and> add_tools False fpt s xs = Inr s"
  using assms by (simp add: normalize_tool_unavailable add_tools_loop_unavailable add_tools_def)

text \<open>
  C8 at a well-formed foreign tool and a non-empty tool collection, added to a section
  that already holds one descriptor.
\<close>

theorem unavailable_skips_foreign_tools_witness:
  "normalize_tool False from_pydantic_tool search_tool = Inr PyNone
   \<and> normalize_tool False from_pydantic_tool analysis_toolset = Inr PyNone
   \<and> add_tools False from_pydantic_tool (empty_section\<lparr>tools := [proompt_tool]\<rparr>)
        [search_tool, analysis_toolset]
      = Inr (empty_section\<lparr>tools := [proompt_tool]\<rparr>)"
proof -
  have h: "\<forall>x\<in>set [search_tool, analysis_toolset]. \<not> isinstance x ToolContext"
    by (simp add: isinstance_def issubclass_def example_defs)
  show ?thesis
    using unavailable_skips_foreign_tools [OF h, of from_pydantic_tool
        "empty_section\<lparr>tools := [proompt_tool]\<rparr>"]
    by simp
qed

subsection \<open>C9: the constructor keeps its providers\<close>

text \<open>
  C9. Whenever the constructor returns a section, its providers are the positional
  arguments verbatim and in order, whatever they are; with no tools given it always
  returns one. Nothing is filtered, unlike in \<^verbatim>\<open>add_providers\<close>.
\<close>

theorem init_keeps_providers:
  "(PromptSection_init avail fpt c tool_args ps = Inr s \<longrightarrow> providers s = ps)
   \<and> PromptSection_init avail fpt c None ps
       = Inr \<lparr>stored_context = c, providers = ps, tools = []\<rparr>"
  by (auto simp: PromptSection_init_def opt_or_empty_def or_empty_def split: sum.splits)

text \<open>
  C9 at the providers \<^verbatim>\<open>None\<close>, 42 and a provider: the constructor keeps the three,
  \<^verbatim>\<open>add_providers\<close> keeps the last.
\<close>

theorem init_keeps_providers_witness:
  "PromptSection_init True from_pydantic_tool simple_context (Some [search_tool])
       [PyNone, PyInt 42, metrics_provider]
     = Inr \<lparr>stored_context = simple_context, providers = [PyNone, PyInt 42, metrics_provider],
            tools = [descriptor ''search_documents'' ''Search through company documents.'']\<rparr>
   \<and> providers \<lparr>stored_context = simple_context,
            providers = [PyNone, PyInt 42, metrics_provider],
            tools = [descriptor ''search_documents'' ''Search through company documents.'']\<rparr>
     = [PyNone, PyInt 42, metrics_provider]
   \<and> providers (add_providers empty_section [PyNone, PyInt 42, metrics_provider])
     = [metrics_provider]"
proof -
  let ?s = "\<lparr>stored_context = simple_context, providers = [PyNone, PyInt 42, metrics_provider],
            tools = [descriptor ''search_documents'' ''Search through company documents.'']\<rparr>"
  have h: "PromptSection_init True from_pydantic_tool simple_context (Some [search_tool])
       [PyNone, PyInt 42, metrics_provider] = Inr ?s"
    by (simp add: eval_defs example_defs)
  have a: "providers (add_providers empty_section [PyNone, PyInt 42, metrics_provider])
      = [metrics_provider]"
    by (simp add: eval_defs example_defs)
  show ?thesis
    using h a init_keeps_providers [of True from_pydantic_tool simple_context
        "Some [search_tool]" "[PyNone, PyInt 42, metrics_provider]" ?s]
    by simp
qed

subsection \<open>C10: string conversion\<close>

text \<open>
  C10. For every concrete section and every concrete prompt, whatever \<^verbatim>\<open>render\<close> its
  class supplies, \<^verbatim>\<open>__str__\<close> gives exactly what \<^verbatim>\<open>render\<close> gives on it: the same
  string, or the same exception.
\<close>

theorem str_is_render:
  "PromptSection_str render s = render s \<and> BasePrompt_str prompt_render p = prompt_render p"
  by (simp add: PromptSection_str_def BasePrompt_str_def)

end
